theory Spec2Isabelle
  imports Complex_Main
begin

section \<open>Tensors and the tensor operations used by \<open>model/rvae.py\<close>\<close>

text \<open>
  A two-dimensional tensor is a list of rows, a three-dimensional one a list of matrices;
  a tensor of Long type holds integers, one of Float type holds reals. The operations on
  Float tensors are written over the reals: a definition gives the expression that the code
  evaluates, and the rounding, the overflow to \<open>inf\<close> and the \<open>nan\<close> of the
  floating-point backend are not represented. What is derived from these definitions are
  equations between expressions and the control flow around them, not the sign or the size
  of a floating-point result. A tensor is rectangular; one with no rows carries no column
  count here.
\<close>

type_synonym tensor = "real list list"
type_synonym tensor3 = "real list list list"
type_synonym long_tensor = "int list list"
type_synonym long_tensor3 = "int list list list"

datatype error =
    AllocationError
  | InputContractViolation
  | ShapeError
  | IndexError
  | KeyError
  | TypeError

text \<open>Two sizes of one dimension broadcast when they agree or one of them is 1.\<close>

definition compat :: "nat \<Rightarrow> nat \<Rightarrow> bool" where
  "compat a b = (a = b \<or> a = 1 \<or> b = 1)"

definition bdim :: "nat \<Rightarrow> nat \<Rightarrow> nat" where
  "bdim a b = (if a = 1 then b else a)"

definition expand :: "nat \<Rightarrow> 'a list \<Rightarrow> 'a list" where
  "expand n xs = (if length xs = n then xs else replicate n (hd xs))"

definition row_op :: "(real \<Rightarrow> real \<Rightarrow> real) \<Rightarrow> real list \<Rightarrow> real list \<Rightarrow> real list" where
  "row_op f x y =
     (let c = bdim (length x) (length y) in map2 f (expand c x) (expand c y))"

text \<open>An elementwise binary operation \<open>a * b\<close>, \<open>a + b\<close>, \<open>a - b\<close> of two matrices.\<close>

definition elementwise :: "(real \<Rightarrow> real \<Rightarrow> real) \<Rightarrow> tensor \<Rightarrow> tensor \<Rightarrow> error + tensor" where
  "elementwise f A B =
     (if \<not> compat (length A) (length B) then Inl ShapeError
      else
        let r = bdim (length A) (length B); A' = expand r A; B' = expand r B in
        if list_all (\<lambda>(x, y). compat (length x) (length y)) (zip A' B')
        then Inr (map2 (row_op f) A' B')
        else Inl ShapeError)"

text \<open>Operations with a scalar, and the pointwise functions \<open>t.exp\<close>, \<open>t.pow\<close>.\<close>

definition scalar_mul :: "real \<Rightarrow> tensor \<Rightarrow> tensor" where
  "scalar_mul c A = map (map (\<lambda>x. c * x)) A"

definition scalar_add :: "tensor \<Rightarrow> real \<Rightarrow> tensor" where
  "scalar_add A c = map (map (\<lambda>x. x + c)) A"

definition t_exp :: "tensor \<Rightarrow> tensor" where
  "t_exp A = map (map exp) A"

definition t_pow :: "tensor \<Rightarrow> nat \<Rightarrow> tensor" where
  "t_pow A n = map (map (\<lambda>x. x ^ n)) A"

text \<open>\<open>t.sum(A, 1)\<close> sums each row; \<open>v.sum()\<close> sums a vector.\<close>

definition t_sum1 :: "tensor \<Rightarrow> real list" where
  "t_sum1 A = map sum_list A"

definition vec_scalar_mul :: "real \<Rightarrow> real list \<Rightarrow> real list" where
  "vec_scalar_mul c v = map (\<lambda>x. c * x) v"

text \<open>\<open>x.view(-1, n)\<close>: the elements in row-major order, regrouped in rows of \<open>n\<close>.\<close>

function chunk :: "nat \<Rightarrow> 'a list \<Rightarrow> 'a list list" where
  "chunk n xs = (if n = 0 \<or> xs = [] then [] else take n xs # chunk n (drop n xs))"
  by pat_completeness auto
termination
  by (relation "measure (\<lambda>(n, xs). length xs)") auto

declare chunk.simps [simp del]

definition view :: "'a list list list \<Rightarrow> nat \<Rightarrow> error + 'a list list" where
  "view x n =
     (let flat = concat (concat x) in
      if n = 0 \<or> length flat mod n \<noteq> 0 then Inl ShapeError
      else Inr (chunk n flat))"

text \<open>\<open>F.softmax\<close> of a matrix normalises each row.\<close>

definition softmax :: "tensor \<Rightarrow> tensor" where
  "softmax A = map (\<lambda>row. map (\<lambda>v. exp v / sum_list (map exp row)) row) A"

text \<open>
  The second argument of \<open>F.binary_cross_entropy\<close> is a tensor of either type.
\<close>

datatype any_tensor = FloatTensor tensor | LongTensor long_tensor

definition row_lengths :: "any_tensor \<Rightarrow> nat list" where
  "row_lengths t = (case t of FloatTensor x \<Rightarrow> map length x | LongTensor x \<Rightarrow> map length x)"

text \<open>
  \<open>F.binary_cross_entropy(p, t, size_average=False)\<close> on a Float prediction \<open>p\<close>.
  The two arguments have the same shape, and the target is of Float type as the prediction
  is: a target of Long type is refused with a type error. On a Float target the result is
  the elementwise term \<open>-(t log p + (1 - t) log (1 - p))\<close> summed over all elements.
\<close>

definition bce_elem :: "real \<Rightarrow> real \<Rightarrow> real" where
  "bce_elem p t = - (t * ln p + (1 - t) * ln (1 - p))"

definition binary_cross_entropy :: "tensor \<Rightarrow> any_tensor \<Rightarrow> error + real" where
  "binary_cross_entropy p t =
     (if map length p \<noteq> row_lengths t then Inl ShapeError
      else
        case t of
          LongTensor target_long \<Rightarrow> Inl TypeError
        | FloatTensor target_float \<Rightarrow>
            Inr (sum_list (map (\<lambda>(pr, tr). sum_list (map2 bce_elem pr tr))
                            (zip p target_float))))"

text \<open>
  \<open>var.long()\<close> gives a 64-bit integer: the number truncated towards zero when that
  lies in the 64-bit range. Outside the range the conversion is left undefined by the
  backend's language; what it gives there is the parameter \<open>out_of_range\<close>.
\<close>

definition long :: "(real \<Rightarrow> int) \<Rightarrow> real \<Rightarrow> int" where
  "long out_of_range x =
     (let t = (if 0 \<le> x then \<lfloor>x\<rfloor> else \<lceil>x\<rceil>) in
      if - (2 ^ 63) \<le> t \<and> t < 2 ^ 63 then t else out_of_range x)"

section \<open>The model\<close>

text \<open>
  The collaborators of \<open>RVAE\<close> (embedding, encoder, the two linear maps, decoder) are
  fields of the model; they are taken to return. The random draws of a call are fields too:
  \<open>noise i j\<close> is the standard-normal draw at position \<open>(i, j)\<close> of \<open>t.randn\<close>, and
  \<open>dropout\<close> is \<open>F.dropout\<close> with the mask it draws. \<open>parameters_allocation_check\<close> is
  the result of the device check of \<open>utils.functional\<close>. Moving a tensor between devices
  does not change its value and is left out.
\<close>

record ('emb, 'st) rvae =
  parameters_allocation_check :: bool
  latent_variable_size :: nat
  word_vocab_size :: nat
  embedding :: "long_tensor \<Rightarrow> long_tensor3 \<Rightarrow> 'emb"
  word_embed :: "long_tensor \<Rightarrow> 'emb"
  encoder :: "'emb \<Rightarrow> tensor"
  context_to_mu :: "tensor \<Rightarrow> tensor"
  context_to_logvar :: "tensor \<Rightarrow> tensor"
  decoder :: "'emb \<Rightarrow> tensor \<Rightarrow> 'st option \<Rightarrow> tensor3 \<times> 'st"
  noise :: "nat \<Rightarrow> nat \<Rightarrow> real"
  dropout :: "'emb \<Rightarrow> real \<Rightarrow> 'emb"

definition randn :: "('emb, 'st) rvae \<Rightarrow> nat \<Rightarrow> nat \<Rightarrow> tensor" where
  "randn m b l = map (\<lambda>i. map (\<lambda>j. noise m i j) [0..<l]) [0..<b]"

text \<open>
  Modelled from the spec: \<open>utils.functional.fold\<close> is not among the sources. The spec
  reads the assertion that calls it as "all three of the inputs are provided", which is the
  left fold of the callback over the list, starting from the given accumulator.
\<close>

fun fold_py :: "('b \<Rightarrow> 'a \<Rightarrow> 'b) \<Rightarrow> 'a list \<Rightarrow> 'b \<Rightarrow> 'b" where
  "fold_py f [] a = a"
| "fold_py f (x # xs) a = fold_py f xs (f a x)"

subsection \<open>\<open>RVAE.forward\<close>\<close>

text \<open>Line 71 and line 77: \<open>std = exp(0.5 * logvar)\<close>, \<open>z = z * std + mu\<close>.\<close>

definition reparameterize :: "tensor \<Rightarrow> tensor \<Rightarrow> tensor \<Rightarrow> error + tensor" where
  "reparameterize eps mu logvar =
     (let std = t_exp (scalar_mul 0.5 logvar) in
      case elementwise (*) eps std of
        Inl e \<Rightarrow> Inl e
      | Inr zs \<Rightarrow> elementwise (+) zs mu)"

text \<open>
  Line 79: \<open>(-0.5 * t.sum(logvar - t.pow(mu, 2) - t.exp(logvar) + 1, 1)).sum()\<close>.
  The definition gives this expression, operation by operation, over the reals; the value
  that the floating-point backend computes differs from it by the rounding of each
  operation, so the sign of a result close to zero is not to be read off it.
\<close>

definition kld_term :: "tensor \<Rightarrow> tensor \<Rightarrow> error + real" where
  "kld_term mu logvar =
     (case elementwise (-) logvar (t_pow mu 2) of
        Inl e \<Rightarrow> Inl e
      | Inr d1 \<Rightarrow>
          (case elementwise (-) d1 (t_exp logvar) of
             Inl e \<Rightarrow> Inl e
           | Inr d2 \<Rightarrow>
               Inr (sum_list (vec_scalar_mul (- 0.5) (t_sum1 (scalar_add d2 1))))))"

text \<open>
  The first branch of \<open>forward\<close> (lines 60 to 79): the latent vector and the KL term from
  the encoder inputs.
\<close>

definition encode_latent ::
  "('emb, 'st) rvae \<Rightarrow> long_tensor \<Rightarrow> long_tensor3 \<Rightarrow> error + (tensor \<times> real)" where
  "encode_latent m encoder_word_input encoder_character_input =
     (let batch_size = length encoder_word_input;
          encoder_input = embedding m encoder_word_input encoder_character_input;
          context = encoder m encoder_input;
          mu = context_to_mu m context;
          logvar = context_to_logvar m context
      in case reparameterize (randn m batch_size (latent_variable_size m)) mu logvar of
           Inl e \<Rightarrow> Inl e
         | Inr z \<Rightarrow>
             (case kld_term mu logvar of
                Inl e \<Rightarrow> Inl e
              | Inr kld \<Rightarrow> Inr (z, kld)))"

definition input_contract ::
  "long_tensor option \<Rightarrow> long_tensor3 option \<Rightarrow> long_tensor option \<Rightarrow> tensor option \<Rightarrow> bool" where
  "input_contract encoder_word_input encoder_character_input decoder_word_input z =
     (z = None \<and>
        fold_py (\<lambda>acc parameter. acc \<and> parameter)
          [encoder_word_input \<noteq> None, encoder_character_input \<noteq> None,
           decoder_word_input \<noteq> None]
          True
      \<or> (z \<noteq> None \<and> decoder_word_input \<noteq> None))"

definition forward ::
  "('emb, 'st) rvae \<Rightarrow> real \<Rightarrow> long_tensor option \<Rightarrow> long_tensor3 option \<Rightarrow>
   long_tensor option \<Rightarrow> tensor option \<Rightarrow> 'st option \<Rightarrow>
   error + (tensor3 \<times> 'st \<times> real option)" where
  "forward m drop_prob encoder_word_input encoder_character_input decoder_word_input z
     initial_state =
     (if \<not> parameters_allocation_check m then Inl AllocationError
      else if \<not> input_contract encoder_word_input encoder_character_input
                  decoder_word_input z
      then Inl InputContractViolation
      else
        case (case z of
                None \<Rightarrow>
                  (case (encoder_word_input, encoder_character_input) of
                     (Some ew, Some ec) \<Rightarrow>
                       (case encode_latent m ew ec of
                          Inl e \<Rightarrow> Inl e
                        | Inr (z', kld) \<Rightarrow> Inr (z', Some kld))
                   | _ \<Rightarrow> Inl TypeError)
              | Some z' \<Rightarrow> Inr (z', None)) of
          Inl e \<Rightarrow> Inl e
        | Inr (z', kld) \<Rightarrow>
            (case decoder_word_input of
               None \<Rightarrow> Inl TypeError
             | Some dw \<Rightarrow>
                 let decoder_input = word_embed m dw;
                     decoder_input = dropout m decoder_input drop_prob;
                     (out, final_state) = decoder m decoder_input z' initial_state
                 in Inr (out, final_state, kld)))"

subsection \<open>The batch loader\<close>

text \<open>
  The batch source is a collaborator. \<open>next_batch\<close> gives the four arrays of numbers
  of one call;
  \<open>go_input\<close> gives the start input (the first component of its result);
  \<open>sample_word_from_distribution k d\<close> is the word drawn from the distribution \<open>d\<close>
  at the \<open>k\<close>-th draw of a run, so that two draws from one distribution may differ.
\<close>

record batch_loader =
  next_batch :: "nat \<Rightarrow> string \<Rightarrow> tensor \<times> tensor3 \<times> tensor \<times> tensor3"
  go_input :: "nat \<Rightarrow> long_tensor"
  sample_word_from_distribution :: "nat \<Rightarrow> real list \<Rightarrow> string"
  end_token :: string
  word_to_idx :: "string \<rightharpoonup> int"

subsection \<open>\<open>RVAE.trainer\<close>\<close>

definition ncols :: "'a list list \<Rightarrow> nat" where
  "ncols A = (case A of [] \<Rightarrow> 0 | r # _ \<Rightarrow> length r)"

text \<open>
  One call of the function \<open>train\<close> that \<open>trainer\<close> returns. Two things that the
  sources do not fix are parameters: \<open>kld_coef\<close> of \<open>utils.functional\<close>, and what the
  cast to Long gives outside the 64-bit range. Line 100 casts each of the four arrays of the
  batch to Long, the target among them, and line 116 hands that target to
  \<open>F.binary_cross_entropy\<close>. The result holds the composite loss, on which
  \<open>backward\<close> is called, and the returned triple; the update of the parameters by the
  optimizer is not represented.
\<close>

definition train ::
  "('emb, 'st) rvae \<Rightarrow> (int \<Rightarrow> real) \<Rightarrow> (real \<Rightarrow> int) \<Rightarrow> batch_loader \<Rightarrow> int \<Rightarrow> nat \<Rightarrow> real \<Rightarrow>
   error + (real \<times> (real \<times> real \<times> real))" where
  "train m kld_coef out_of_range batch_loader i batch_size dropout_prob =
     (case next_batch batch_loader batch_size ''train'' of
        (input0, input1, input2, input3) \<Rightarrow>
          let encoder_word_input = map (map (long out_of_range)) input0;
              encoder_character_input = map (map (map (long out_of_range))) input1;
              decoder_word_input = map (map (long out_of_range)) input2;
              target = map (map (map (long out_of_range))) input3;
              batch_size = length decoder_word_input;
              seq_len = ncols decoder_word_input
          in
          (case forward m dropout_prob (Some encoder_word_input)
                  (Some encoder_character_input) (Some decoder_word_input) None None of
             Inl e \<Rightarrow> Inl e
           | Inr (logits, _, kld) \<Rightarrow>
              (case view logits (word_vocab_size m) of
                 Inl e \<Rightarrow> Inl e
               | Inr logits2 \<Rightarrow>
                   let prediction = softmax logits2 in
                   (case view target (word_vocab_size m) of
                      Inl e \<Rightarrow> Inl e
                    | Inr target2 \<Rightarrow>
                        (case binary_cross_entropy prediction (LongTensor target2) of
                           Inl e \<Rightarrow> Inl e
                         | Inr s \<Rightarrow>
                             let bce = s / real seq_len in
                             (case kld of
                                None \<Rightarrow> Inl TypeError
                              | Some k \<Rightarrow>
                                  let loss = (bce + kld_coef i * k) / real batch_size
                                  in Inr (loss, (bce, k, kld_coef i))))))))"

subsection \<open>\<open>RVAE.sample\<close>\<close>

text \<open>
  Lines 145 to 152, one decoder step of the loop: the forward pass on the current input
  and state, and the word drawn from the last row of the prediction.
\<close>

definition draw_word ::
  "('emb, 'st) rvae \<Rightarrow> batch_loader \<Rightarrow> tensor \<Rightarrow> nat \<Rightarrow> long_tensor \<Rightarrow> 'st option \<Rightarrow>
   error + (string \<times> 'st)" where
  "draw_word m batch_loader seed k decoder_word_input initial_state =
     (case forward m 0 None None (Some decoder_word_input) (Some seed) initial_state of
        Inl e \<Rightarrow> Inl e
      | Inr (logits, final_state, _) \<Rightarrow>
          (case view logits (word_vocab_size m) of
             Inl e \<Rightarrow> Inl e
           | Inr logits2 \<Rightarrow>
               let prediction = softmax logits2 in
               if prediction = [] then Inl IndexError
               else Inr (sample_word_from_distribution batch_loader k (last prediction),
                         final_state)))"

text \<open>
  The loop \<open>for i in range(seq_len)\<close>, with the iterations that remain as first
  numeric argument. Beside \<open>result\<close> it returns the number of decoder steps made, which
  the code does not compute.
\<close>

fun sample_loop ::
  "('emb, 'st) rvae \<Rightarrow> batch_loader \<Rightarrow> tensor \<Rightarrow> nat \<Rightarrow> long_tensor \<Rightarrow> 'st option \<Rightarrow>
   string \<Rightarrow> nat \<Rightarrow> error + (string \<times> nat)" where
  "sample_loop m batch_loader seed 0 decoder_word_input initial_state result steps =
     Inr (result, steps)"
| "sample_loop m batch_loader seed (Suc n) decoder_word_input initial_state result steps =
     (case draw_word m batch_loader seed steps decoder_word_input initial_state of
        Inl e \<Rightarrow> Inl e
      | Inr (word, final_state) \<Rightarrow>
          if word = end_token batch_loader then Inr (result, Suc steps)
          else
            (case word_to_idx batch_loader word of
               None \<Rightarrow> Inl KeyError
             | Some idx \<Rightarrow>
                 sample_loop m batch_loader seed n [[idx]] (Some final_state)
                   (result @ '' '' @ word) (Suc steps)))"

definition sample ::
  "('emb, 'st) rvae \<Rightarrow> batch_loader \<Rightarrow> int \<Rightarrow> tensor \<Rightarrow> error + (string \<times> nat)" where
  "sample m batch_loader seq_len seed =
     sample_loop m batch_loader seed (nat seq_len) (go_input batch_loader 1) None [] 0"

subsection \<open>The draw of a word\<close>


subsection \<open>Shapes\<close>

text \<open>\<open>has_shape b l A\<close>: the matrix \<open>A\<close> has \<open>b\<close> rows of \<open>l\<close> entries each.\<close>

definition has_shape :: "nat \<Rightarrow> nat \<Rightarrow> 'a list list \<Rightarrow> bool" where
  "has_shape b l A = (length A = b \<and> list_all (\<lambda>r. length r = l) A)"

text \<open>The latent vector on tensors of one shape, where nothing is broadcast.\<close>

definition latent_of :: "tensor \<Rightarrow> tensor \<Rightarrow> tensor \<Rightarrow> tensor" where
  "latent_of eps mu logvar =
     map2 (map2 (+)) (map2 (map2 (*)) eps (t_exp (scalar_mul 0.5 logvar))) mu"

subsection \<open>A small model and batch loader for concrete runs\<close>

definition mock_rvae :: "(unit, unit) rvae" where
  "mock_rvae =
     \<lparr> parameters_allocation_check = True,
       latent_variable_size = 1,
       word_vocab_size = 2,
       embedding = (\<lambda>w c. ()),
       word_embed = (\<lambda>w. ()),
       encoder = (\<lambda>e. [[0]]),
       context_to_mu = (\<lambda>c. c),
       context_to_logvar = (\<lambda>c. c),
       decoder = (\<lambda>e z s. ([[[0, 0]]], ())),
       noise = (\<lambda>i j. 2),
       dropout = (\<lambda>e p. e) \<rparr>"

definition mock_loader :: batch_loader where
  "mock_loader =
     \<lparr> next_batch = (\<lambda>n s. ([[1]], [[[1]]], [[1]], [[[1, 0]]])),
       go_input = (\<lambda>n. [[0]]),
       sample_word_from_distribution = (\<lambda>k d. ''a''),
       end_token = ''E'',
       word_to_idx = [''a'' \<mapsto> 0, ''E'' \<mapsto> 1] \<rparr>"



definition mock_kld_coef :: "int \<Rightarrow> real" where
  "mock_kld_coef i = 1 / 2"

definition mock_out_of_range :: "real \<Rightarrow> int" where
  "mock_out_of_range x = - (2 ^ 63)"

section \<open>Properties\<close>

subsection \<open>Errors of the tensor operations\<close>

lemma elementwise_error: "elementwise f A B = Inl e \<Longrightarrow> e = ShapeError"
  by (auto simp: elementwise_def Let_def split: if_splits)

lemma reparameterize_error: "reparameterize eps mu logvar = Inl e \<Longrightarrow> e = ShapeError"
  by (auto simp: reparameterize_def Let_def split: sum.splits dest: elementwise_error)

lemma kld_term_error: "kld_term mu logvar = Inl e \<Longrightarrow> e = ShapeError"
  by (auto simp: kld_term_def split: sum.splits dest: elementwise_error)

lemma encode_latent_error: "encode_latent m ew ec = Inl e \<Longrightarrow> e = ShapeError"
  by (auto simp: encode_latent_def Let_def split: sum.splits
           dest: reparameterize_error kld_term_error)

lemma input_contract_iff:
  "input_contract ew ec dw z =
     ((z = None \<and> ew \<noteq> None \<and> ec \<noteq> None \<and> dw \<noteq> None) \<or> (z \<noteq> None \<and> dw \<noteq> None))"
  by (simp add: input_contract_def)

subsection \<open>Tensors of one shape\<close>

lemma has_shape_nth: "has_shape b l A \<Longrightarrow> i < b \<Longrightarrow> length (A ! i) = l"
  by (auto simp: has_shape_def list_all_length)

lemma has_shape_length: "has_shape b l A \<Longrightarrow> length A = b"
  by (simp add: has_shape_def)

lemma has_shape_map [simp]: "has_shape b l (map (map f) A) = has_shape b l A"
  by (auto simp: has_shape_def list_all_length)

lemma row_op_same: "length x = length y \<Longrightarrow> row_op f x y = map2 f x y"
  by (simp add: row_op_def bdim_def expand_def)

lemma elementwise_same:
  assumes "has_shape b l A" "has_shape b l B"
  shows "elementwise f A B = Inr (map2 (map2 f) A B)"
proof -
  have len: "length A = length B" using assms by (simp add: has_shape_def)
  have rows: "\<And>x y. (x, y) \<in> set (zip A B) \<Longrightarrow> length x = length y"
    using assms by (auto simp: has_shape_def list_all_length in_set_zip)
  have ok: "list_all (\<lambda>(x, y). compat (length x) (length y)) (zip A B)"
    using rows by (auto simp: list_all_iff compat_def)
  have eq: "map2 (row_op f) A B = map2 (map2 f) A B"
    using rows by (auto simp: row_op_same)
  show ?thesis
    using len ok eq by (simp add: elementwise_def compat_def bdim_def expand_def)
qed

lemma has_shape_map2:
  "has_shape b l A \<Longrightarrow> has_shape b l B \<Longrightarrow> has_shape b l (map2 (map2 f) A B)"
  by (auto simp: has_shape_def list_all_length)

lemma nth_map2_map2:
  "has_shape b l A \<Longrightarrow> has_shape b l B \<Longrightarrow> i < b \<Longrightarrow> j < l \<Longrightarrow>
   map2 (map2 f) A B ! i ! j = f (A ! i ! j) (B ! i ! j)"
  by (auto simp: has_shape_def list_all_length)

lemma has_shape_randn: "has_shape b l (randn m b l)"
  by (simp add: has_shape_def randn_def list_all_length)

lemma nth_randn: "i < b \<Longrightarrow> j < l \<Longrightarrow> randn m b l ! i ! j = noise m i j"
  by (simp add: randn_def)

lemma reparameterize_same:
  assumes "has_shape b l eps" "has_shape b l mu" "has_shape b l logvar"
  shows "reparameterize eps mu logvar = Inr (latent_of eps mu logvar)"
proof -
  define std where "std = t_exp (scalar_mul 0.5 logvar)"
  have s: "has_shape b l std"
    using assms(3) by (simp add: std_def t_exp_def scalar_mul_def)
  have p: "has_shape b l (map2 (map2 (*)) eps std)"
    using assms(1) s by (rule has_shape_map2)
  have "reparameterize eps mu logvar =
      (case elementwise (*) eps std of Inl e \<Rightarrow> Inl e | Inr zs \<Rightarrow> elementwise (+) zs mu)"
    by (simp add: reparameterize_def std_def)
  also have "\<dots> = Inr (map2 (map2 (+)) (map2 (map2 (*)) eps std) mu)"
    by (simp add: elementwise_same [OF assms(1) s] elementwise_same [OF p assms(2)])
  finally show ?thesis by (simp add: latent_of_def std_def)
qed

lemma latent_of_shape:
  assumes "has_shape b l eps" "has_shape b l mu" "has_shape b l logvar"
  shows "has_shape b l (latent_of eps mu logvar)"
  unfolding latent_of_def using assms
  by (intro has_shape_map2) (simp_all add: t_exp_def scalar_mul_def)

lemma latent_of_nth:
  assumes "has_shape b l eps" "has_shape b l mu" "has_shape b l logvar" "i < b" "j < l"
  shows "latent_of eps mu logvar ! i ! j = eps ! i ! j * exp (0.5 * logvar ! i ! j) + mu ! i ! j"
proof -
  define std where "std = t_exp (scalar_mul 0.5 logvar)"
  have s: "has_shape b l std"
    using assms(3) by (simp add: std_def t_exp_def scalar_mul_def)
  have p: "has_shape b l (map2 (map2 (*)) eps std)"
    using assms(1) s by (rule has_shape_map2)
  have e: "std ! i ! j = exp (0.5 * logvar ! i ! j)"
    using assms(3-5)
    by (auto simp: std_def t_exp_def scalar_mul_def has_shape_def list_all_length)
  have "latent_of eps mu logvar ! i ! j = map2 (map2 (+)) (map2 (map2 (*)) eps std) mu ! i ! j"
    by (simp add: latent_of_def std_def)
  also have "\<dots> = eps ! i ! j * std ! i ! j + mu ! i ! j"
    by (simp add: nth_map2_map2 [OF p assms(2) assms(4,5)]
          nth_map2_map2 [OF assms(1) s assms(4,5)])
  finally show ?thesis by (simp add: e)
qed

lemma sum_list_map_nth: "sum_list (map f xs) = (\<Sum>i<length xs. f (xs ! i))"
  by (induction xs rule: rev_induct) (simp_all add: nth_append)

lemma kld_term_same:
  assumes "has_shape b l mu" "has_shape b l logvar"
  shows "kld_term mu logvar =
     Inr (\<Sum>i<b. - 0.5 * (\<Sum>j<l. logvar ! i ! j - (mu ! i ! j)\<^sup>2 - exp (logvar ! i ! j) + 1))"
proof -
  define d1 where "d1 = map2 (map2 (-)) logvar (t_pow mu 2)"
  define d2 where "d2 = map2 (map2 (-)) d1 (t_exp logvar)"
  have sp: "has_shape b l (t_pow mu 2)" using assms(1) by (simp add: t_pow_def)
  have se: "has_shape b l (t_exp logvar)" using assms(2) by (simp add: t_exp_def)
  have s1: "has_shape b l d1" unfolding d1_def using assms(2) sp by (rule has_shape_map2)
  have s2: "has_shape b l d2" unfolding d2_def using s1 se by (rule has_shape_map2)
  have k: "kld_term mu logvar =
      Inr (sum_list (vec_scalar_mul (- 0.5) (t_sum1 (scalar_add d2 1))))"
    using elementwise_same [OF assms(2) sp, of "(-)"] elementwise_same [OF s1 se, of "(-)"]
    by (simp add: kld_term_def d1_def [symmetric] d2_def [symmetric])
  have el: "d2 ! i ! j = logvar ! i ! j - (mu ! i ! j)\<^sup>2 - exp (logvar ! i ! j)"
    if "i < b" "j < l" for i j
  proof -
    have "t_pow mu 2 ! i ! j = (mu ! i ! j)\<^sup>2" "t_exp logvar ! i ! j = exp (logvar ! i ! j)"
      using assms that by (auto simp: t_pow_def t_exp_def has_shape_def list_all_length)
    then show ?thesis
      unfolding d2_def d1_def
      by (simp add: nth_map2_map2 [OF s1 [unfolded d1_def] se that]
            nth_map2_map2 [OF assms(2) sp that])
  qed
  have row: "sum_list (map (\<lambda>x. x + 1) (d2 ! i)) =
      (\<Sum>j<l. logvar ! i ! j - (mu ! i ! j)\<^sup>2 - exp (logvar ! i ! j) + 1)" if "i < b" for i
  proof -
    have li: "length (d2 ! i) = l" using s2 that by (rule has_shape_nth)
    have "sum_list (map (\<lambda>x. x + 1) (d2 ! i)) = (\<Sum>j<l. d2 ! i ! j + 1)"
      using li by (simp add: sum_list_map_nth)
    also have "\<dots> = (\<Sum>j<l. logvar ! i ! j - (mu ! i ! j)\<^sup>2 - exp (logvar ! i ! j) + 1)"
      using el [OF that] by simp
    finally show ?thesis .
  qed
  have lb: "length d2 = b" using s2 by (rule has_shape_length)
  have "vec_scalar_mul (- 0.5) (t_sum1 (scalar_add d2 1)) =
      map (\<lambda>r. - 0.5 * sum_list (map (\<lambda>x. x + 1) r)) d2"
    by (simp add: vec_scalar_mul_def t_sum1_def scalar_add_def)
  then have "sum_list (vec_scalar_mul (- 0.5) (t_sum1 (scalar_add d2 1))) =
      (\<Sum>i<b. - 0.5 * sum_list (map (\<lambda>x. x + 1) (d2 ! i)))"
    using lb by (simp only: sum_list_map_nth)
  also have "\<dots> = (\<Sum>i<b. - 0.5 * (\<Sum>j<l. logvar ! i ! j - (mu ! i ! j)\<^sup>2 - exp (logvar ! i ! j) + 1))"
    using row by simp
  finally show ?thesis using k by simp
qed

subsection \<open>The branches of \<open>forward\<close>\<close>

lemma forward_no_alloc:
  "\<not> parameters_allocation_check m \<Longrightarrow> forward m p ew ec dw z st = Inl AllocationError"
  by (simp add: forward_def)

lemma forward_bad_contract:
  "parameters_allocation_check m \<Longrightarrow> \<not> input_contract ew ec dw z \<Longrightarrow>
   forward m p ew ec dw z st = Inl InputContractViolation"
  by (simp add: forward_def)

lemma forward_training:
  assumes "parameters_allocation_check m"
    and "encode_latent m ew ec = Inr (z, kld)"
  shows "forward m p (Some ew) (Some ec) (Some dw) None st =
     Inr (fst (decoder m (dropout m (word_embed m dw) p) z st),
          snd (decoder m (dropout m (word_embed m dw) p) z st), Some kld)"
  using assms
  by (simp add: forward_def input_contract_iff Let_def split: prod.splits)

lemma forward_training_error:
  assumes "parameters_allocation_check m"
    and "encode_latent m ew ec = Inl e"
  shows "forward m p (Some ew) (Some ec) (Some dw) None st = Inl e"
  using assms
  by (simp add: forward_def input_contract_iff)

lemma forward_conditional:
  assumes "parameters_allocation_check m"
  shows "forward m p ew ec (Some dw) (Some z) st =
     Inr (fst (decoder m (dropout m (word_embed m dw) p) z st),
          snd (decoder m (dropout m (word_embed m dw) p) z st), None)"
  using assms
  by (simp add: forward_def input_contract_iff Let_def split: prod.splits)


lemma forward_valid_cases:
  assumes "parameters_allocation_check m" and "input_contract ew ec dw z"
  shows "forward m p ew ec dw z st = Inl ShapeError \<and> z = None
       \<or> (\<exists>out fs k. forward m p ew ec dw z st = Inr (out, fs, Some k) \<and> z = None)
       \<or> (\<exists>out fs. forward m p ew ec dw z st = Inr (out, fs, None) \<and> z \<noteq> None)"
proof (cases z)
  case (Some z')
  then obtain dw' where dw: "dw = Some dw'"
    using assms(2) by (auto simp: input_contract_iff)
  show ?thesis
    unfolding Some dw by (simp add: forward_conditional [OF assms(1)])
next
  case None
  then obtain ew' ec' dw' where i: "ew = Some ew'" "ec = Some ec'" "dw = Some dw'"
    using assms(2) by (auto simp: input_contract_iff)
  show ?thesis
  proof (cases "encode_latent m ew' ec'")
    case (Inl e)
    then have "e = ShapeError" by (rule encode_latent_error)
    then show ?thesis
      unfolding None i using forward_training_error [OF assms(1) Inl] by simp
  next
    case (Inr r)
    then obtain z' k where "encode_latent m ew' ec' = Inr (z', k)" by (cases r) simp
    then show ?thesis
      unfolding None i using forward_training [OF assms(1)] by simp
  qed
qed

lemma encode_latent_same:
  assumes "mu = context_to_mu m (encoder m (embedding m ew ec))"
    and "logvar = context_to_logvar m (encoder m (embedding m ew ec))"
    and "has_shape (length ew) (latent_variable_size m) mu"
    and "has_shape (length ew) (latent_variable_size m) logvar"
  shows "encode_latent m ew ec =
     Inr (latent_of (randn m (length ew) (latent_variable_size m)) mu logvar,
          \<Sum>i<length ew. - 0.5 * (\<Sum>j<latent_variable_size m.
             logvar ! i ! j - (mu ! i ! j)\<^sup>2 - exp (logvar ! i ! j) + 1))"
proof -
  note r = reparameterize_same [OF has_shape_randn assms(3,4)]
    and k = kld_term_same [OF assms(3,4)]
  show ?thesis
    unfolding encode_latent_def Let_def assms(1,2) [symmetric]
    by (simp only: r k sum.case)
qed

lemma mock_encode_latent:
  "\<exists>z k. encode_latent mock_rvae [[1]] [[[1]]] = Inr (z, k)"
proof -
  have a: "[[0]] = context_to_mu mock_rvae (encoder mock_rvae (embedding mock_rvae [[1]] [[[1]]]))"
    and b: "[[0]] = context_to_logvar mock_rvae (encoder mock_rvae (embedding mock_rvae [[1]] [[[1]]]))"
    by (simp_all add: mock_rvae_def)
  have s: "has_shape (length [[1::int]]) (latent_variable_size mock_rvae) [[0::real]]"
    by (simp add: mock_rvae_def has_shape_def)
  show ?thesis
    using encode_latent_same [OF a b s s] by blast
qed

section \<open>The input contract of \<open>forward\<close>\<close>

text \<open>
  Claim C1, as the code has it. The call fails with the input-contract error exactly when
  the device check has passed and the inputs satisfy neither alternative of the assertion:
  \<open>z\<close> absent with all three of encoder word input, encoder character input and decoder
  word input present, or \<open>z\<close> present with the decoder word input present. The second
  alternative does not look at the encoder inputs.
\<close>

theorem forward_input_contract:
  "(forward m p ew ec dw z st = Inl InputContractViolation) =
   (parameters_allocation_check m \<and>
    \<not> ((z = None \<and> ew \<noteq> None \<and> ec \<noteq> None \<and> dw \<noteq> None) \<or> (z \<noteq> None \<and> dw \<noteq> None)))"
proof (cases "parameters_allocation_check m")
  case False
  then show ?thesis by (simp add: forward_no_alloc)
next
  case True
  show ?thesis
  proof (cases "input_contract ew ec dw z")
    case False
    then show ?thesis
      using True forward_bad_contract [OF True False] by (simp add: input_contract_iff)
  next
    case c: True
    have "forward m p ew ec dw z st \<noteq> Inl InputContractViolation"
      using forward_valid_cases [OF True c, of p st] by auto
    then show ?thesis using c True by (simp add: input_contract_iff)
  qed
qed

theorem forward_input_contract_witness:
  "forward mock_rvae 0 None (Some [[[1]]]) (Some [[1]]) None None = Inl InputContractViolation
   \<and> forward mock_rvae 0 (Some [[1]]) None None (Some [[0]]) None = Inl InputContractViolation"
  using forward_input_contract [of mock_rvae 0 None "Some [[[1]]]" "Some [[1]]" None None]
    forward_input_contract [of mock_rvae 0 "Some [[1]]" None None "Some [[0]]" None]
  by (simp add: mock_rvae_def)

text \<open>
  A call with both encoder inputs, the decoder word input and \<open>z\<close> present passes the
  assertion and runs the decoder on the given \<open>z\<close>; the encoder inputs are not used.
\<close>

theorem forward_accepts_encoder_inputs_with_z:
  "forward mock_rvae 0 (Some [[1]]) (Some [[[1]]]) (Some [[1]]) (Some [[0]]) None
     = Inr ([[[0, 0]]], (), None)"
  by (simp add: forward_conditional mock_rvae_def)

section \<open>Where the KL term is defined\<close>

text \<open>
  Claim C2. For every call that passes the device check and the input contract: when
  \<open>z\<close> is absent the call either stops on a shape mismatch of the tensor arithmetic or
  returns a KL term that is present; when \<open>z\<close> is supplied the call returns, and the KL
  term it returns is absent.
\<close>

theorem forward_kld_defined:
  assumes "parameters_allocation_check m" and "input_contract ew ec dw z"
  shows "(z = None \<longrightarrow>
            forward m p ew ec dw z st = Inl ShapeError
            \<or> (\<exists>out fs k. forward m p ew ec dw z st = Inr (out, fs, Some k)))
       \<and> (z \<noteq> None \<longrightarrow> (\<exists>out fs. forward m p ew ec dw z st = Inr (out, fs, None)))"
  using forward_valid_cases [OF assms, of p st] by auto

theorem forward_kld_defined_witness:
  "parameters_allocation_check mock_rvae
   \<and> input_contract (Some [[1]]) (Some [[[1]]]) (Some [[1]]) None
   \<and> input_contract None None (Some [[1]]) (Some [[0]])
   \<and> (\<exists>out fs k. forward mock_rvae 0 (Some [[1]]) (Some [[[1]]]) (Some [[1]]) None None
         = Inr (out, fs, Some k))
   \<and> (\<exists>out fs. forward mock_rvae 0 None None (Some [[1]]) (Some [[0]]) None
         = Inr (out, fs, None))"
proof -
  have a: "parameters_allocation_check mock_rvae" by (simp add: mock_rvae_def)
  have c1: "input_contract (Some [[1]]) (Some [[[1]]]) (Some [[1]]) None"
    and c2: "input_contract None None (Some [[1]]) (Some [[0]])"
    by (simp_all add: input_contract_iff)
  obtain z k where "encode_latent mock_rvae [[1]] [[[1]]] = Inr (z, k)"
    using mock_encode_latent by blast
  then have ne: "forward mock_rvae 0 (Some [[1]]) (Some [[[1]]]) (Some [[1]]) None None
      \<noteq> Inl ShapeError"
    by (simp add: forward_training [OF a])
  have t: "\<exists>out fs k. forward mock_rvae 0 (Some [[1]]) (Some [[[1]]]) (Some [[1]]) None None
         = Inr (out, fs, Some k)"
    using forward_kld_defined [OF a c1, of 0 None] ne by simp
  have s: "\<exists>out fs. forward mock_rvae 0 None None (Some [[1]]) (Some [[0]]) None
         = Inr (out, fs, None)"
    using forward_kld_defined [OF a c2, of 0 None] by simp
  show ?thesis using a c1 c2 t s by blast
qed

section \<open>The KL term and the latent vector of the training branch\<close>

text \<open>
  Claim C3. When the two linear maps give \<open>mu\<close> and \<open>logvar\<close> of shape
  \<open>[batch, L]\<close>, the KL term that the training branch of \<open>forward\<close> returns is the sum
  over the batch rows (not their mean) of \<open>-0.5\<close> times the sum over the \<open>L\<close> latent
  dimensions of \<open>logvar - mu\<^sup>2 - exp logvar + 1\<close>.
\<close>

theorem forward_kld_is_batch_sum:
  assumes "parameters_allocation_check m"
    and "mu = context_to_mu m (encoder m (embedding m ew ec))"
    and "logvar = context_to_logvar m (encoder m (embedding m ew ec))"
    and "has_shape (length ew) (latent_variable_size m) mu"
    and "has_shape (length ew) (latent_variable_size m) logvar"
  shows "\<exists>out fs. forward m p (Some ew) (Some ec) (Some dw) None st =
     Inr (out, fs,
          Some (\<Sum>i<length ew. - 0.5 * (\<Sum>j<latent_variable_size m.
             logvar ! i ! j - (mu ! i ! j)\<^sup>2 - exp (logvar ! i ! j) + 1)))"
  using forward_training [OF assms(1) encode_latent_same [OF assms(2-5)]] by blast

theorem forward_kld_is_batch_sum_witness:
  "\<exists>out fs. forward mock_rvae 0 (Some [[1]]) (Some [[[1]]]) (Some [[1]]) None None =
     Inr (out, fs, Some (\<Sum>i<length [[1::int]]. - 0.5 * (\<Sum>j<latent_variable_size mock_rvae.
             [[0::real]] ! i ! j - ([[0::real]] ! i ! j)\<^sup>2 - exp ([[0::real]] ! i ! j) + 1)))"
proof -
  have a: "parameters_allocation_check mock_rvae" by (simp add: mock_rvae_def)
  have b: "[[0]] = context_to_mu mock_rvae (encoder mock_rvae (embedding mock_rvae [[1]] [[[1]]]))"
    and c: "[[0]] = context_to_logvar mock_rvae (encoder mock_rvae (embedding mock_rvae [[1]] [[[1]]]))"
    by (simp_all add: mock_rvae_def)
  have s: "has_shape (length [[1::int]]) (latent_variable_size mock_rvae) [[0::real]]"
    by (simp add: mock_rvae_def has_shape_def)
  show ?thesis by (rule forward_kld_is_batch_sum [OF a b c s s])
qed

text \<open>
  Claim C4. With \<open>mu\<close> and \<open>logvar\<close> of shape \<open>[batch, L]\<close> and the noise draw
  \<open>noise m\<close> fixed, the latent vector that the training branch computes and hands to the
  decoder has shape \<open>[batch, L]\<close> and is, entry by entry,
  \<open>epsilon * exp (0.5 * logvar) + mu\<close>: it is a function of the noise, \<open>mu\<close> and
  \<open>logvar\<close> alone.
\<close>

theorem forward_latent_reparameterized:
  assumes "parameters_allocation_check m"
    and "mu = context_to_mu m (encoder m (embedding m ew ec))"
    and "logvar = context_to_logvar m (encoder m (embedding m ew ec))"
    and "has_shape (length ew) (latent_variable_size m) mu"
    and "has_shape (length ew) (latent_variable_size m) logvar"
  shows "\<exists>z kld.
       has_shape (length ew) (latent_variable_size m) z
     \<and> (\<forall>i<length ew. \<forall>j<latent_variable_size m.
           z ! i ! j = noise m i j * exp (0.5 * logvar ! i ! j) + mu ! i ! j)
     \<and> encode_latent m ew ec = Inr (z, kld)
     \<and> forward m p (Some ew) (Some ec) (Some dw) None st =
         Inr (fst (decoder m (dropout m (word_embed m dw) p) z st),
              snd (decoder m (dropout m (word_embed m dw) p) z st), Some kld)"
proof -
  let ?b = "length ew" and ?l = "latent_variable_size m"
  let ?z = "latent_of (randn m ?b ?l) mu logvar"
  note e = encode_latent_same [OF assms(2-5)]
  have sh: "has_shape ?b ?l ?z"
    by (rule latent_of_shape [OF has_shape_randn assms(4,5)])
  have el: "\<forall>i<?b. \<forall>j<?l. ?z ! i ! j = noise m i j * exp (0.5 * logvar ! i ! j) + mu ! i ! j"
    by (simp add: latent_of_nth [OF has_shape_randn assms(4,5)] nth_randn)
  show ?thesis
    using sh el e forward_training [OF assms(1) e] by blast
qed

theorem forward_latent_reparameterized_witness:
  "\<exists>z kld. has_shape 1 1 z \<and> z ! 0 ! 0 = 2
     \<and> encode_latent mock_rvae [[1]] [[[1]]] = Inr (z, kld)"
proof -
  have a: "parameters_allocation_check mock_rvae" by (simp add: mock_rvae_def)
  have b: "[[0]] = context_to_mu mock_rvae (encoder mock_rvae (embedding mock_rvae [[1]] [[[1]]]))"
    and c: "[[0]] = context_to_logvar mock_rvae (encoder mock_rvae (embedding mock_rvae [[1]] [[[1]]]))"
    by (simp_all add: mock_rvae_def)
  have s: "has_shape (length [[1::int]]) (latent_variable_size mock_rvae) [[0::real]]"
    by (simp add: mock_rvae_def has_shape_def)
  obtain z kld where z: "has_shape (length [[1::int]]) (latent_variable_size mock_rvae) z"
    and el: "\<forall>i<length [[1::int]]. \<forall>j<latent_variable_size mock_rvae.
           z ! i ! j = noise mock_rvae i j * exp (0.5 * [[0::real]] ! i ! j) + [[0::real]] ! i ! j"
    and e: "encode_latent mock_rvae [[1]] [[[1]]] = Inr (z, kld)"
    using forward_latent_reparameterized [OF a b c s s, of 0 "[[1]]" None] by blast
  have "has_shape 1 1 z" using z by (simp add: mock_rvae_def)
  moreover have "z ! 0 ! 0 = 2" using el by (simp add: mock_rvae_def)
  ultimately show ?thesis using e by blast
qed

section \<open>The sampling loop\<close>

subsection \<open>Runs of the small model\<close>

lemma view_mock: "view [[[0, 0::real]]] 2 = Inr [[0, 0]]"
  by (simp add: view_def chunk.simps)


subsection \<open>A run in which no draw is the end token\<close>


subsection \<open>The distribution handed to the sampler\<close>







subsection \<open>The first step of the loop\<close>




subsection \<open>The three scenarios\<close>


lemma chunk_Nil [simp]: "chunk n [] = []"
  by (simp add: chunk.simps)

lemma chunk_step:
  "0 < n \<Longrightarrow> xs \<noteq> [] \<Longrightarrow> chunk n xs = take n xs # chunk n (drop n xs)"
  by (subst chunk.simps) simp







text \<open>
  Claim C10. With a maximum length of 0 or less, \<open>sample\<close> returns the empty string and
  makes no decoder step.
\<close>

theorem sample_nonpositive_length:
  "seq_len \<le> 0 \<Longrightarrow> sample m batch_loader seq_len seed = Inr ('''', 0)"
  by (simp add: sample_def)

theorem sample_nonpositive_length_witness:
  "(0::int) \<le> 0 \<and> (-3::int) \<le> 0
   \<and> sample mock_rvae mock_loader 0 [[0]] = Inr ('''', 0)
   \<and> sample mock_rvae mock_loader (-3) [[0]] = Inr ('''', 0)"
  using sample_nonpositive_length [of 0 mock_rvae mock_loader "[[0]]"]
    sample_nonpositive_length [of "-3" mock_rvae mock_loader "[[0]]"]
  by simp

section \<open>The training step\<close>

lemma binary_cross_entropy_long: "binary_cross_entropy p (LongTensor t) \<noteq> Inr s"
  by (simp add: binary_cross_entropy_def)

text \<open>No call of \<open>train\<close> returns: one that gets as far as line 116 stops there.\<close>

lemma train_never_returns: "train m kld_coef out_of_range batch_loader i n p \<noteq> Inr r"
  unfolding train_def Let_def
  by (simp add: binary_cross_entropy_long split: prod.splits sum.splits option.splits)

lemma mock_forward_training:
  "forward mock_rvae p (Some [[1]]) (Some [[[1]]]) (Some [[1]]) None None =
     Inr ([[[0, 0]]], (), Some 0)"
proof -
  have a: "parameters_allocation_check mock_rvae" by (simp add: mock_rvae_def)
  have b: "[[0]] = context_to_mu mock_rvae (encoder mock_rvae (embedding mock_rvae [[1]] [[[1]]]))"
    and c: "[[0]] = context_to_logvar mock_rvae (encoder mock_rvae (embedding mock_rvae [[1]] [[[1]]]))"
    by (simp_all add: mock_rvae_def)
  have s: "has_shape (length [[1::int]]) (latent_variable_size mock_rvae) [[0::real]]"
    by (simp add: mock_rvae_def has_shape_def)
  have "encode_latent mock_rvae [[1]] [[[1]]] =
      Inr (latent_of (randn mock_rvae (length [[1::int]]) (latent_variable_size mock_rvae))
             [[0]] [[0]], 0)"
    using encode_latent_same [OF b c s s] by (simp add: mock_rvae_def)
  from forward_training [OF a this, of p "[[1]]" None] show ?thesis
    by (simp add: mock_rvae_def)
qed

lemma long_in_range: "long f 1 = 1" "long f 0 = 0"
  by (simp_all add: long_def)

text \<open>
  Claim C5. The step does not return the triple that the claim describes. Line 100 casts
  the target to Long with the three index arrays, and \<open>F.binary_cross_entropy\<close> at line
  116 refuses a Long target. On the batch of the small loader (one sentence of one word, a
  vocabulary of two words, target \<open>[1, 0]\<close>) the forward pass and both views succeed, and
  the step stops at line 116 with a type error: no reconstruction loss is computed, no
  composite loss is backpropagated and no triple is returned.
\<close>

theorem train_raises_on_long_target:
  "train mock_rvae mock_kld_coef mock_out_of_range mock_loader 3 1 0 = Inl TypeError"
proof -
  have nb: "next_batch mock_loader 1 ''train'' = ([[1]], [[[1]]], [[1]], [[[1, 0]]])"
    by (simp add: mock_loader_def)
  have v: "view [[[0, 0::real]]] (word_vocab_size mock_rvae) = Inr [[0, 0]]"
    by (simp add: mock_rvae_def view_mock)
  have vt: "view [[[1, 0::int]]] (word_vocab_size mock_rvae) = Inr [[1, 0]]"
    by (simp add: mock_rvae_def view_def chunk_step)
  show ?thesis
    using nb v vt
    by (simp add: train_def long_in_range mock_forward_training softmax_def
          binary_cross_entropy_def row_lengths_def)
qed

end
